theory Spec2Isabelle
  imports Complex_Main "HOL-Library.Log_Nat" "HOL-Library.Word"
begin

unbundle bit_operations_syntax

section \<open>The URTP receive path of ioc-server: data model\<close>

text \<open>
  Go's \<open>byte\<close>, \<open>int16\<close>, \<open>uint16\<close> and \<open>uint64\<close> are words of that width: addition and
  shifts wrap as the Go operators do. Go's \<open>int\<close> (lengths, counters, sample counts) is
  \<open>nat\<close> where the source keeps it non-negative and \<open>int\<close> where it is a parameter that
  could be negative.
\<close>

type_synonym byte = "8 word"
type_synonym int16 = "16 word"
type_synonym uint16 = "16 word"
type_synonym uint64 = "64 word"

text \<open>The run-time panics of the Go code that the functions below can reach.\<close>

datatype panic = IndexOutOfRange | NilDereference | NegativeLength | DivideByZero

text \<open>\<open>xs[i]\<close> on a Go slice: a run-time panic when \<open>i\<close> is not below \<open>len(xs)\<close>.\<close>

definition index :: "'a list \<Rightarrow> nat \<Rightarrow> panic + 'a" where
  "index xs i = (if i < length xs then Inr (xs ! i) else Inl IndexOutOfRange)"

text \<open>The constants of \<open>audio-in.go\<close>.\<close>

definition BLOCK_DURATION_MS :: nat where
  "BLOCK_DURATION_MS = 20"

definition SAMPLING_FREQUENCY :: nat where
  "SAMPLING_FREQUENCY = 16000"

definition SAMPLES_PER_BLOCK :: nat where
  "SAMPLES_PER_BLOCK = SAMPLING_FREQUENCY * BLOCK_DURATION_MS div 1000"

definition SAMPLES_PER_UNICAM_BLOCK :: nat where
  "SAMPLES_PER_UNICAM_BLOCK = SAMPLING_FREQUENCY div 1000"

definition UNICAM_CODED_SHIFT_SIZE_BITS :: nat where
  "UNICAM_CODED_SHIFT_SIZE_BITS = 4"

definition SYNC_BYTE :: byte where
  "SYNC_BYTE = 0x5a"

definition URTP_TIMESTAMP_SIZE :: nat where
  "URTP_TIMESTAMP_SIZE = 8"

definition URTP_SEQUENCE_NUMBER_SIZE :: nat where
  "URTP_SEQUENCE_NUMBER_SIZE = 2"

definition URTP_PAYLOAD_SIZE_SIZE :: nat where
  "URTP_PAYLOAD_SIZE_SIZE = 2"

definition URTP_HEADER_SIZE :: nat where
  "URTP_HEADER_SIZE = 14"

definition URTP_SAMPLE_SIZE :: nat where
  "URTP_SAMPLE_SIZE = 2"

definition URTP_DATAGRAM_MAX_SIZE :: nat where
  "URTP_DATAGRAM_MAX_SIZE = URTP_HEADER_SIZE + SAMPLES_PER_BLOCK * URTP_SAMPLE_SIZE"

definition URTP_NUM_BYTES_AUDIO_OFFSET :: nat where
  "URTP_NUM_BYTES_AUDIO_OFFSET = 12"

definition PCM_SIGNED_16_BIT :: byte where
  "PCM_SIGNED_16_BIT = 0"

definition UNICAM_COMPRESSED_8_BIT :: byte where
  "UNICAM_COMPRESSED_8_BIT = 1"

definition MAX_NUM_AUDIO_CODING_SCHEMES :: byte where
  "MAX_NUM_AUDIO_CODING_SCHEMES = 2"

text \<open>
  \<open>UrtpDatagram\<close>: the field \<open>Audio\<close> is a pointer to a slice in the source, \<open>nil\<close> when
  no audio was decoded; here \<open>None\<close>.
\<close>

record UrtpDatagram =
  SequenceNumber :: uint16
  Timestamp :: uint64
  Audio :: "int16 list option"

section \<open>Decoder: PCM\<close>

text \<open>
  \<open>decodePcm\<close>: the loop \<open>for y := range audio\<close> runs \<open>len(audioDataPcm) / 2\<close> times
  with \<open>x\<close> advancing by two; each pass reads \<open>audioDataPcm[x]\<close> and
  \<open>audioDataPcm[x + 1]\<close>.
\<close>

primrec decodePcm_loop :: "byte list \<Rightarrow> nat \<Rightarrow> nat \<Rightarrow> panic + int16 list" where
  "decodePcm_loop audioDataPcm x 0 = Inr []"
| "decodePcm_loop audioDataPcm x (Suc n) =
     (case index audioDataPcm x of
        Inl e \<Rightarrow> Inl e
      | Inr hi \<Rightarrow>
          (case index audioDataPcm (x + 1) of
             Inl e \<Rightarrow> Inl e
           | Inr lo \<Rightarrow>
               (case decodePcm_loop audioDataPcm (x + 2) n of
                  Inl e \<Rightarrow> Inl e
                | Inr rest \<Rightarrow> Inr ((push_bit 8 (ucast hi) + ucast lo) # rest))))"

definition decodePcm :: "byte list \<Rightarrow> panic + int16 list" where
  "decodePcm audioDataPcm =
     decodePcm_loop audioDataPcm 0 (length audioDataPcm div URTP_SAMPLE_SIZE)"

text \<open>
  The inverse the round-trip property speaks of: a sample written as two bytes, most
  significant first.
\<close>

definition sampleBytesBigEndian :: "int16 \<Rightarrow> byte list" where
  "sampleBytesBigEndian s = [ucast (drop_bit 8 s), ucast s]"

definition encodePcmBigEndian :: "int16 list \<Rightarrow> byte list" where
  "encodePcmBigEndian audio = concat (map sampleBytesBigEndian audio)"

section \<open>Decoder: UNICAM\<close>

text \<open>
  The de-emphasis and de-squeal filters (\<open>FirPut\<close>, \<open>FirGet\<close>, \<open>DeSquealFirPut\<close>,
  \<open>DeSquealFirGet\<close> and their state) are not part of the files at hand. The decoder
  takes them as a parameter \<open>flt\<close>: one step maps the filter state and the shifted
  sample to the new state and the sample stored in \<open>audio\<close>. Nothing below depends on
  what the filter computes.

  The parameter \<open>sampleSizeBits\<close> is a Go \<open>int\<close>; the only call passes 8, and it is a
  \<open>nat\<close> here.
\<close>

text \<open>
  The counting loop
  \<open>for x := 0; x < len(audioDataUnicam) * 8; x += 16 * sampleSizeBits + 4 { numBlocks++ }\<close>.
\<close>

function countUnicamBlocks :: "nat \<Rightarrow> nat \<Rightarrow> nat \<Rightarrow> nat" where
  "countUnicamBlocks len sampleSizeBits x =
     (if x < len * 8
      then Suc (countUnicamBlocks len sampleSizeBits
                  (x + (SAMPLES_PER_UNICAM_BLOCK * sampleSizeBits + UNICAM_CODED_SHIFT_SIZE_BITS)))
      else 0)"
  by pat_completeness auto
termination
  by (relation "measure (\<lambda>(len, sampleSizeBits, x). len * 8 - x)")
     (auto simp: UNICAM_CODED_SHIFT_SIZE_BITS_def)

declare countUnicamBlocks.simps [simp del]

text \<open>
  The first inner loop: sixteen reads \<open>audioDataUnicam[sourceIndex]\<close>, each widened to
  \<open>int16\<close>, with \<open>sourceIndex\<close> incremented after each.
\<close>

primrec readUnicamSamples :: "byte list \<Rightarrow> nat \<Rightarrow> nat \<Rightarrow> panic + int16 list" where
  "readUnicamSamples audioDataUnicam sourceIndex 0 = Inr []"
| "readUnicamSamples audioDataUnicam sourceIndex (Suc n) =
     (case index audioDataUnicam sourceIndex of
        Inl e \<Rightarrow> Inl e
      | Inr b \<Rightarrow>
          (case readUnicamSamples audioDataUnicam (Suc sourceIndex) n of
             Inl e \<Rightarrow> Inl e
           | Inr rest \<Rightarrow> Inr (ucast b # rest)))"

text \<open>
  Sign extension of one sample: when bit \<open>sampleSizeBits - 1\<close> is set, every bit from
  \<open>sampleSizeBits\<close> up to 15 is set. (With \<open>sampleSizeBits = 0\<close> the Go shift count
  \<open>uint(0) - 1\<close> is huge and the tested mask is 0.)
\<close>

definition signExtend :: "nat \<Rightarrow> int16 \<Rightarrow> int16" where
  "signExtend sampleSizeBits sample =
     (if sample AND (if sampleSizeBits = 0 then 0 else push_bit (sampleSizeBits - 1) 1) \<noteq> 0
      then foldl (\<lambda>s y. s OR push_bit y 1) sample [sampleSizeBits ..< URTP_SAMPLE_SIZE * 8]
      else sample)"

text \<open>
  The second inner loop: each sample is sign-extended, shifted left by the block's shift
  and passed through the filters.
\<close>

primrec filterUnicamSamples ::
  "('f \<Rightarrow> int16 \<Rightarrow> 'f \<times> int16) \<Rightarrow> nat \<Rightarrow> byte \<Rightarrow> 'f \<Rightarrow> int16 list \<Rightarrow> 'f \<times> int16 list" where
  "filterUnicamSamples flt sampleSizeBits shift st [] = (st, [])"
| "filterUnicamSamples flt sampleSizeBits shift st (sample # samples) =
     (case flt st (push_bit (unat shift) (signExtend sampleSizeBits sample)) of
        (st1, y) \<Rightarrow>
          (case filterUnicamSamples flt sampleSizeBits shift st1 samples of
             (st2, ys) \<Rightarrow> (st2, y # ys)))"

text \<open>
  The shift value of a block: an even block reads the next byte and uses its low nibble,
  an odd block uses the high nibble of the byte the block before it read. The result is
  the new \<open>shiftValues\<close>, the new \<open>sourceIndex\<close> and \<open>shift\<close>.
\<close>

definition unicamShift :: "byte list \<Rightarrow> nat \<Rightarrow> nat \<Rightarrow> byte \<Rightarrow> panic + (byte \<times> nat \<times> byte)" where
  "unicamShift audioDataUnicam blockCount sourceIndex shiftValues =
     (if even blockCount
      then (case index audioDataUnicam sourceIndex of
              Inl e \<Rightarrow> Inl e
            | Inr b \<Rightarrow> Inr (b, Suc sourceIndex, b AND 0x0F))
      else Inr (shiftValues, sourceIndex, drop_bit 4 shiftValues))"

text \<open>
  The loop \<open>for blockCount < numBlocks\<close>; the first numeric argument is
  \<open>numBlocks - blockCount\<close>. The decoded blocks are returned in order, which is what the
  writes to \<open>audio[blockOffset + x]\<close> build.
\<close>

primrec decodeUnicamBlocks ::
  "('f \<Rightarrow> int16 \<Rightarrow> 'f \<times> int16) \<Rightarrow> nat \<Rightarrow> byte list \<Rightarrow> nat \<Rightarrow> nat \<Rightarrow> nat \<Rightarrow> byte \<Rightarrow> 'f
   \<Rightarrow> panic + ('f \<times> int16 list)" where
  "decodeUnicamBlocks flt sampleSizeBits audioDataUnicam 0 blockCount sourceIndex shiftValues st =
     Inr (st, [])"
| "decodeUnicamBlocks flt sampleSizeBits audioDataUnicam (Suc n) blockCount sourceIndex shiftValues st =
     (case readUnicamSamples audioDataUnicam sourceIndex SAMPLES_PER_UNICAM_BLOCK of
        Inl e \<Rightarrow> Inl e
      | Inr raw \<Rightarrow>
          (case unicamShift audioDataUnicam blockCount
                  (sourceIndex + SAMPLES_PER_UNICAM_BLOCK) shiftValues of
             Inl e \<Rightarrow> Inl e
           | Inr (shiftValues1, sourceIndex1, shift) \<Rightarrow>
               (case filterUnicamSamples flt sampleSizeBits shift st raw of
                  (st1, block) \<Rightarrow>
                    (case decodeUnicamBlocks flt sampleSizeBits audioDataUnicam n
                            (Suc blockCount) sourceIndex1 shiftValues1 st1 of
                       Inl e \<Rightarrow> Inl e
                     | Inr (st2, rest) \<Rightarrow> Inr (st2, block @ rest)))))"

definition decodeUnicam ::
  "('f \<Rightarrow> int16 \<Rightarrow> 'f \<times> int16) \<Rightarrow> 'f \<Rightarrow> byte list \<Rightarrow> nat \<Rightarrow> panic + ('f \<times> int16 list)" where
  "decodeUnicam flt st audioDataUnicam sampleSizeBits =
     decodeUnicamBlocks flt sampleSizeBits audioDataUnicam
       (countUnicamBlocks (length audioDataUnicam) sampleSizeBits 0) 0 0 0 st"

text \<open>
  The bytes that \<open>n\<close> more blocks read when the next block has number \<open>blockCount\<close>:
  sixteen per block and one shift byte per even-numbered block.
\<close>

definition unicamBytesNeeded :: "nat \<Rightarrow> nat \<Rightarrow> nat" where
  "unicamBytesNeeded blockCount n =
     16 * n + (if even blockCount then (n + 1) div 2 else n div 2)"

section \<open>Framer: one datagram\<close>

text \<open>
  \<open>handleUrtpDatagram\<close>: for a packet of at least 14 bytes the result is the timing
  datagram and the \<open>UrtpDatagram\<close> sent to \<open>ProcessDatagramsChannel\<close>; for a shorter
  packet nothing is sent and the timing datagram is empty. The filter state is threaded
  through the UNICAM decoder.
\<close>

definition urtpSequenceNumber :: "byte list \<Rightarrow> uint16" where
  "urtpSequenceNumber packet = push_bit 8 (ucast (packet ! 2)) + ucast (packet ! 3)"

definition urtpTimestamp :: "byte list \<Rightarrow> uint64" where
  "urtpTimestamp packet =
     push_bit 56 (ucast (packet ! 4)) + push_bit 48 (ucast (packet ! 5)) +
     push_bit 40 (ucast (packet ! 6)) + push_bit 32 (ucast (packet ! 7)) +
     push_bit 24 (ucast (packet ! 8)) + push_bit 16 (ucast (packet ! 9)) +
     push_bit 8 (ucast (packet ! 10)) + ucast (packet ! 11)"

definition urtpDecodeAudio ::
  "('f \<Rightarrow> int16 \<Rightarrow> 'f \<times> int16) \<Rightarrow> 'f \<Rightarrow> byte list \<Rightarrow> panic + ('f \<times> int16 list option)" where
  "urtpDecodeAudio flt st packet =
     (if length packet > URTP_HEADER_SIZE
      then (if packet ! 1 = PCM_SIGNED_16_BIT
            then (case decodePcm (drop URTP_HEADER_SIZE packet) of
                    Inl e \<Rightarrow> Inl e
                  | Inr audio \<Rightarrow> Inr (st, Some audio))
            else if packet ! 1 = UNICAM_COMPRESSED_8_BIT
            then (case decodeUnicam flt st (drop URTP_HEADER_SIZE packet) 8 of
                    Inl e \<Rightarrow> Inl e
                  | Inr (st1, audio) \<Rightarrow> Inr (st1, Some audio))
            else Inr (st, None))
      else Inr (st, None))"

definition handleUrtpDatagram ::
  "('f \<Rightarrow> int16 \<Rightarrow> 'f \<times> int16) \<Rightarrow> 'f \<Rightarrow> byte list
   \<Rightarrow> panic + ('f \<times> byte list \<times> UrtpDatagram option)" where
  "handleUrtpDatagram flt st packet =
     (if length packet \<ge> URTP_HEADER_SIZE
      then (case urtpDecodeAudio flt st packet of
              Inl e \<Rightarrow> Inl e
            | Inr (st1, audio) \<Rightarrow>
                Inr (st1,
                     [packet ! 0, packet ! 2, packet ! 3, packet ! 4, packet ! 5, packet ! 6,
                      packet ! 7, packet ! 8, packet ! 9, packet ! 10, packet ! 11],
                     Some \<lparr>SequenceNumber = urtpSequenceNumber packet,
                           Timestamp = urtpTimestamp packet,
                           Audio = audio\<rparr>))
      else Inr (st, [], None))"

text \<open>\<open>verifyUrtpHeader\<close>; the log lines of the failing branches are left out.\<close>

definition verifyUrtpHeader :: "byte list \<Rightarrow> bool" where
  "verifyUrtpHeader header =
     (if length header \<ge> URTP_HEADER_SIZE
      then (if header ! 0 = SYNC_BYTE
            then (if header ! 1 < MAX_NUM_AUDIO_CODING_SCHEMES
                  then (let bytesOfPayload =
                              push_bit 8 (unat (header ! URTP_NUM_BYTES_AUDIO_OFFSET)) +
                              unat (header ! (URTP_NUM_BYTES_AUDIO_OFFSET + 1))
                        in bytesOfPayload \<le> URTP_DATAGRAM_MAX_SIZE)
                  else False)
            else False)
      else False)"

text \<open>
  One pass of the loop of \<open>udpServer\<close> over a received packet \<open>line[:numBytesIn]\<close>: the
  packet reaches \<open>handleUrtpDatagram\<close> when it has at least 14 bytes and its first 14
  bytes pass \<open>verifyUrtpHeader\<close>; otherwise it is dropped.
\<close>

definition udpReceive ::
  "('f \<Rightarrow> int16 \<Rightarrow> 'f \<times> int16) \<Rightarrow> 'f \<Rightarrow> byte list
   \<Rightarrow> panic + ('f \<times> byte list \<times> UrtpDatagram option)" where
  "udpReceive flt st packet =
     (if length packet \<ge> URTP_HEADER_SIZE \<and> verifyUrtpHeader (take URTP_HEADER_SIZE packet)
      then handleUrtpDatagram flt st packet
      else Inr (st, [], None))"

section \<open>Framer: TCP stream reassembly\<close>

text \<open>
  The reassembly states. \<open>State\<close> is an \<open>int\<close> in the source, only ever assigned one of
  these six constants, so the \<open>default\<close> branch of the \<open>switch\<close> has no counterpart.
\<close>

datatype urtp_state =
    URTP_STATE_WAITING_SYNC
  | URTP_STATE_WAITING_AUDIO_CODING
  | URTP_STATE_WAITING_SEQUENCE_NUMBER
  | URTP_STATE_WAITING_TIMESTAMP
  | URTP_STATE_WAITING_PAYLOAD_SIZE
  | URTP_STATE_WAITING_PAYLOAD

text \<open>
  \<open>TcpReassemblyData\<close>. \<open>ByteCount\<close> and \<open>PayloadSize\<close> are Go \<open>int\<close>s that the code
  never lets go below zero (it only subtracts what it has checked to be there).
  \<open>Header\<close> and \<open>Datagram\<close> are \<open>bytes.Buffer\<close>s: the unread bytes, in order.
\<close>

record TcpReassemblyData =
  State :: urtp_state
  ByteCount :: nat
  PayloadSize :: nat
  Header :: "byte list"
  Datagram :: "byte list"

text \<open>The value a connection starts with: the zero value, in state waiting-for-sync.\<close>

definition initialReassemblyData :: TcpReassemblyData where
  "initialReassemblyData =
     \<lparr>State = URTP_STATE_WAITING_SYNC, ByteCount = 0, PayloadSize = 0, Header = [], Datagram = []\<rparr>"

text \<open>
  The five header cases of the \<open>switch\<close> in \<open>handleUrtpStream\<close>, for one byte \<open>item\<close>.
  In the payload-size case the byte is shifted by \<open>8 * (2 - ByteCount - 1)\<close>, which is 8
  for the first byte and 0 for the second; \<open>ByteCount\<close> is 0 or 1 there.
\<close>

definition urtpHeaderByte :: "TcpReassemblyData \<Rightarrow> byte \<Rightarrow> TcpReassemblyData" where
  "urtpHeaderByte rd item =
     (case State rd of
        URTP_STATE_WAITING_SYNC \<Rightarrow>
          (if item = SYNC_BYTE
           then rd\<lparr>Header := Header rd @ [item], State := URTP_STATE_WAITING_AUDIO_CODING\<rparr>
           else rd\<lparr>Header := [], State := URTP_STATE_WAITING_SYNC\<rparr>)
      | URTP_STATE_WAITING_AUDIO_CODING \<Rightarrow>
          (if item < MAX_NUM_AUDIO_CODING_SCHEMES
           then rd\<lparr>Header := Header rd @ [item], State := URTP_STATE_WAITING_SEQUENCE_NUMBER\<rparr>
           else rd\<lparr>Header := [], State := URTP_STATE_WAITING_SYNC\<rparr>)
      | URTP_STATE_WAITING_SEQUENCE_NUMBER \<Rightarrow>
          (let rd1 = rd\<lparr>Header := Header rd @ [item], ByteCount := ByteCount rd + 1\<rparr>
           in if ByteCount rd1 \<ge> URTP_SEQUENCE_NUMBER_SIZE
              then rd1\<lparr>ByteCount := 0, State := URTP_STATE_WAITING_TIMESTAMP\<rparr>
              else rd1)
      | URTP_STATE_WAITING_TIMESTAMP \<Rightarrow>
          (let rd1 = rd\<lparr>Header := Header rd @ [item], ByteCount := ByteCount rd + 1\<rparr>
           in if ByteCount rd1 \<ge> URTP_TIMESTAMP_SIZE
              then rd1\<lparr>ByteCount := 0, State := URTP_STATE_WAITING_PAYLOAD_SIZE\<rparr>
              else rd1)
      | URTP_STATE_WAITING_PAYLOAD_SIZE \<Rightarrow>
          (let rd1 = rd\<lparr>Header := Header rd @ [item],
                         PayloadSize := PayloadSize rd +
                           push_bit (8 * (URTP_PAYLOAD_SIZE_SIZE - ByteCount rd - 1)) (unat item),
                         ByteCount := ByteCount rd + 1\<rparr>
           in if ByteCount rd1 \<ge> URTP_PAYLOAD_SIZE_SIZE
              then (let rd2 = rd1\<lparr>ByteCount := 0\<rparr>
                    in if PayloadSize rd2 \<le> URTP_DATAGRAM_MAX_SIZE
                       then (let rd3 = rd2\<lparr>State := URTP_STATE_WAITING_PAYLOAD,
                                              Datagram := Datagram rd2 @ Header rd2\<rparr>
                             in if PayloadSize rd3 = 0
                                then rd3\<lparr>Header := [], State := URTP_STATE_WAITING_SYNC\<rparr>
                                else rd3)
                       else rd2\<lparr>PayloadSize := 0, Header := [], State := URTP_STATE_WAITING_SYNC\<rparr>)
              else rd1)
      | URTP_STATE_WAITING_PAYLOAD \<Rightarrow> rd)"

text \<open>
  The payload case. \<open>item\<close> is the byte just read; \<open>bytesToRead\<close> more are taken from
  the TCP buffer in one go. The result is the new reassembly data and the packets handed
  to \<open>handleUrtpDatagram\<close> (none or one).
\<close>

definition urtpPayloadBytesToRead :: "TcpReassemblyData \<Rightarrow> byte list \<Rightarrow> nat" where
  "urtpPayloadBytesToRead rd tcpBuffer =
     (let payloadSize = (if PayloadSize rd > 0 then PayloadSize rd - 1 else PayloadSize rd);
          bytesToRead = length tcpBuffer
      in if bytesToRead > payloadSize then payloadSize else bytesToRead)"

definition urtpPayloadBytes ::
  "TcpReassemblyData \<Rightarrow> byte \<Rightarrow> byte list \<Rightarrow> TcpReassemblyData \<times> byte list list" where
  "urtpPayloadBytes rd item tcpBuffer =
     (let rd1 = rd\<lparr>Datagram := Datagram rd @ [item]\<rparr>;
          rd2 = (if PayloadSize rd1 > 0 then rd1\<lparr>PayloadSize := PayloadSize rd1 - 1\<rparr> else rd1);
          bytesToRead = urtpPayloadBytesToRead rd tcpBuffer;
          rd3 = rd2\<lparr>Datagram := Datagram rd2 @ take bytesToRead tcpBuffer,
                    PayloadSize := PayloadSize rd2 - bytesToRead\<rparr>
      in if PayloadSize rd3 = 0
         then (rd3\<lparr>Datagram := [], Header := [], State := URTP_STATE_WAITING_SYNC\<rparr>,
               [Datagram rd3])
         else (rd3, []))"

text \<open>
  The loop \<open>for item, err = tcpBuffer.ReadByte(); err == nil; ...\<close>. It runs until the
  TCP buffer is empty, so the buffer is empty again at the next call and holds exactly
  \<open>data\<close> when the loop starts. The second component of the result lists the packets
  passed to \<open>handleUrtpDatagram\<close>, in order.
\<close>

function urtpStreamLoop ::
  "TcpReassemblyData \<Rightarrow> byte list \<Rightarrow> TcpReassemblyData \<times> byte list list" where
  "urtpStreamLoop rd [] = (rd, [])"
| "urtpStreamLoop rd (item # tcpBuffer) =
     (if State rd = URTP_STATE_WAITING_PAYLOAD
      then (case urtpPayloadBytes rd item tcpBuffer of
              (rd1, packets) \<Rightarrow>
                (case urtpStreamLoop rd1 (drop (urtpPayloadBytesToRead rd tcpBuffer) tcpBuffer) of
                   (rd2, later) \<Rightarrow> (rd2, packets @ later)))
      else urtpStreamLoop (urtpHeaderByte rd item) tcpBuffer)"
  by pat_completeness auto
termination
  by (relation "measure (\<lambda>(rd, tcpBuffer). length tcpBuffer)") auto

text \<open>
  The packets are handled in the order they were completed; a panic in the decoder ends
  the process. The timing datagram returned is the one of the last packet handled.
\<close>

primrec handleUrtpPackets ::
  "('f \<Rightarrow> int16 \<Rightarrow> 'f \<times> int16) \<Rightarrow> 'f \<Rightarrow> byte list \<Rightarrow> byte list list
   \<Rightarrow> panic + ('f \<times> byte list \<times> UrtpDatagram list)" where
  "handleUrtpPackets flt st timingDatagram [] = Inr (st, timingDatagram, [])"
| "handleUrtpPackets flt st timingDatagram (packet # packets) =
     (case handleUrtpDatagram flt st packet of
        Inl e \<Rightarrow> Inl e
      | Inr (st1, timingDatagram1, sent) \<Rightarrow>
          (case handleUrtpPackets flt st1 timingDatagram1 packets of
             Inl e \<Rightarrow> Inl e
           | Inr (st2, timingDatagram2, later) \<Rightarrow>
               Inr (st2, timingDatagram2, (case sent of None \<Rightarrow> later | Some d \<Rightarrow> d # later))))"

definition handleUrtpStream ::
  "('f \<Rightarrow> int16 \<Rightarrow> 'f \<times> int16) \<Rightarrow> 'f \<Rightarrow> TcpReassemblyData \<Rightarrow> byte list
   \<Rightarrow> panic + (TcpReassemblyData \<times> 'f \<times> byte list \<times> UrtpDatagram list)" where
  "handleUrtpStream flt st reassemblyData data =
     (case urtpStreamLoop reassemblyData data of
        (rd, packets) \<Rightarrow>
          (case handleUrtpPackets flt st [] packets of
             Inl e \<Rightarrow> Inl e
           | Inr (st1, timingDatagram, sent) \<Rightarrow> Inr (rd, st1, timingDatagram, sent)))"

section \<open>Sample records\<close>

text \<open>
  Three byte sequences a client can send: a PCM header that declares 641 payload bytes;
  a complete PCM record with sequence number 1 and no payload; a complete PCM record
  with sequence number 2 and a payload of one sample.
\<close>

definition oversizeHeader :: "byte list" where
  "oversizeHeader = [0x5A, 0, 0, 7, 0, 0, 0, 0, 0, 0, 0, 0, 0x02, 0x81]"

definition zeroPayloadRecord :: "byte list" where
  "zeroPayloadRecord = [0x5A, 0, 0, 1, 0, 0, 0, 0, 0, 0, 0, 0, 0, 0]"

definition twoBytePayloadRecord :: "byte list" where
  "twoBytePayloadRecord = [0x5A, 0, 0, 2, 0, 0, 0, 0, 0, 0, 0, 0, 0, 2, 7, 9]"

section \<open>Timeline assembler\<close>

text \<open>The constants of \<open>audio-process.go\<close> used here.\<close>

definition MAX_GAP_FILL_MILLISECONDS :: nat where
  "MAX_GAP_FILL_MILLISECONDS = 500"

text \<open>
  One sample as it is written to \<open>pcmAudio\<close>: the bytes \<open>byte(x >> (z * 8))\<close> for
  \<open>z = 0, 1\<close>; the shift of an \<open>int16\<close> is arithmetic.
\<close>

definition sampleBytes :: "int16 \<Rightarrow> byte list" where
  "sampleBytes x = map (\<lambda>z. ucast (signed_drop_bit (z * 8) x)) [0 ..< URTP_SAMPLE_SIZE]"

text \<open>
  The fill loop of \<open>handleGap\<close>: one pass per sample of the gap, reading
  \<open>(*previousDatagram.Audio)[y]\<close> and wrapping \<open>y\<close> to 0 at the end of the block.
\<close>

primrec gapFillLoop :: "int16 list \<Rightarrow> nat \<Rightarrow> nat \<Rightarrow> panic + byte list" where
  "gapFillLoop audio y 0 = Inr []"
| "gapFillLoop audio y (Suc n) =
     (case index audio y of
        Inl e \<Rightarrow> Inl e
      | Inr x \<Rightarrow>
          (case gapFillLoop audio (if Suc y \<ge> length audio then 0 else Suc y) n of
             Inl e \<Rightarrow> Inl e
           | Inr rest \<Rightarrow> Inr (sampleBytes x @ rest)))"

text \<open>
  \<open>handleGap\<close>, with the buffer \<open>pcmAudio\<close> passed in and returned. \<open>make\<close> panics on
  a negative length; \<open>*previousDatagram.Audio\<close> panics when \<open>Audio\<close> is \<open>nil\<close>.
\<close>

definition handleGap :: "int \<Rightarrow> UrtpDatagram option \<Rightarrow> byte list \<Rightarrow> panic + byte list" where
  "handleGap gap previousDatagram pcmAudio =
     (if gap < int (SAMPLING_FREQUENCY * MAX_GAP_FILL_MILLISECONDS div 1000)
      then (if gap < 0 then Inl NegativeLength
            else (case previousDatagram of
                    None \<Rightarrow> Inr (pcmAudio @ replicate (nat gap * URTP_SAMPLE_SIZE) 0)
                  | Some p \<Rightarrow>
                      (case Audio p of
                         None \<Rightarrow> Inl NilDereference
                       | Some audio \<Rightarrow>
                           (if length audio > 0
                            then (case gapFillLoop audio 0 (nat gap) of
                                    Inl e \<Rightarrow> Inl e
                                  | Inr fill \<Rightarrow> Inr (pcmAudio @ fill))
                            else Inr (pcmAudio @ replicate (nat gap * URTP_SAMPLE_SIZE) 0)))))
      else Inr pcmAudio)"

text \<open>
  \<open>processDatagram\<close>; \<open>previousDatagram\<close> is the front of the processed list, the
  datagram processed last. The sequence numbers are \<open>uint16\<close>: both \<open>+ 1\<close> and the
  difference wrap.
\<close>

definition processSequenceSkip ::
  "UrtpDatagram \<Rightarrow> UrtpDatagram option \<Rightarrow> byte list \<Rightarrow> panic + byte list" where
  "processSequenceSkip datagram previousDatagram pcmAudio =
     (case previousDatagram of
        None \<Rightarrow> Inr pcmAudio
      | Some p \<Rightarrow>
          (if SequenceNumber datagram \<noteq> SequenceNumber p + 1
           then handleGap (int (unat (SequenceNumber datagram - SequenceNumber p)) *
                             int SAMPLES_PER_BLOCK) previousDatagram pcmAudio
           else Inr pcmAudio))"

definition processDatagram ::
  "UrtpDatagram \<Rightarrow> UrtpDatagram option \<Rightarrow> byte list \<Rightarrow> panic + byte list" where
  "processDatagram datagram previousDatagram pcmAudio =
     (case processSequenceSkip datagram previousDatagram pcmAudio of
        Inl e \<Rightarrow> Inl e
      | Inr pcm1 \<Rightarrow>
          (case Audio datagram of
             Some audio \<Rightarrow>
               (let pcm2 = pcm1 @ concat (map sampleBytes audio)
                in if length audio < SAMPLES_PER_BLOCK
                   then handleGap (int SAMPLES_PER_BLOCK - int (length audio)) previousDatagram pcm2
                   else Inr pcm2)
           | None \<Rightarrow> handleGap (int SAMPLES_PER_BLOCK) previousDatagram pcm1))"

text \<open>
  The first loop of the ticker: the new datagrams are processed in arrival order, each
  one becoming the front of the processed list for the next.
\<close>

primrec processDatagrams ::
  "UrtpDatagram list \<Rightarrow> UrtpDatagram option \<Rightarrow> byte list
   \<Rightarrow> panic + (UrtpDatagram option \<times> byte list)" where
  "processDatagrams [] previousDatagram pcmAudio = Inr (previousDatagram, pcmAudio)"
| "processDatagrams (datagram # datagrams) previousDatagram pcmAudio =
     (case processDatagram datagram previousDatagram pcmAudio of
        Inl e \<Rightarrow> Inl e
      | Inr pcm1 \<Rightarrow> processDatagrams datagrams (Some datagram) pcm1)"

section \<open>Segmenter: output buffer feedback\<close>

text \<open>
  \<open>time.Duration\<close> is a count of nanoseconds in an \<open>int64\<close>; the values here stay far
  from its bounds and are \<open>int\<close>. Go's \<open>/\<close> on integers truncates towards zero.
\<close>

definition goDiv :: "int \<Rightarrow> int \<Rightarrow> int" where
  "goDiv a b = sgn a * sgn b * (\<bar>a\<bar> div \<bar>b\<bar>)"

definition Millisecond :: int where
  "Millisecond = 1000000"

definition MIN_OUTPUT_BUFFERED_AUDIO :: int where
  "MIN_OUTPUT_BUFFERED_AUDIO = Millisecond * 1000"

record OutputBufferState =
  Buffered :: int
  BufferSize :: int

text \<open>
  The variables of \<open>operateAudioProcessing\<close> that the \<open>OutputBufferState\<close> case reads or
  writes. \<open>mp3HandleOpen\<close> stands for \<open>mp3Handle != nil\<close>.
\<close>

record AudioProcessing =
  minOutputBufferedAudio :: int
  mp3HandleOpen :: bool
  mp3FileSamples :: nat
  mp3SamplesPerFrame :: nat
  pcmAudio :: "byte list"

text \<open>The number of samples in one segment: a whole number of MP3 frames.\<close>

definition segmentSamples :: "AudioProcessing \<Rightarrow> nat" where
  "segmentSamples s = mp3FileSamples s div mp3SamplesPerFrame s * mp3SamplesPerFrame s"

text \<open>
  The case \<open>*OutputBufferState\<close> of the channel loop. The first \<open>if\<close> lowers the variable
  \<open>minOutputBufferedAudio\<close>; the second compares \<open>message.Buffered\<close> with the constant
  \<open>MIN_OUTPUT_BUFFERED_AUDIO\<close>. An integer division by zero panics.
\<close>

definition onOutputBufferState ::
  "OutputBufferState \<Rightarrow> AudioProcessing \<Rightarrow> panic + AudioProcessing" where
  "onOutputBufferState message s =
     (let s1 = (if minOutputBufferedAudio s > goDiv (BufferSize message) 2
                then s\<lparr>minOutputBufferedAudio := goDiv (BufferSize message) 2\<rparr>
                else s)
      in if Buffered message < MIN_OUTPUT_BUFFERED_AUDIO \<and> mp3HandleOpen s1
         then (if mp3SamplesPerFrame s1 = 0 then Inl DivideByZero
               else Inr (s1\<lparr>pcmAudio := pcmAudio s1 @
                                  replicate (segmentSamples s1 * URTP_SAMPLE_SIZE) 0\<rparr>))
         else Inr s1)"

text \<open>
  The state when the channel loop starts, for a segment duration of 1000 ms and the MP3
  frame size 576 that the encoder reports: \<open>mp3FileSamples = 1000 * 16000 / 1000\<close>.
\<close>

definition initialAudioProcessing :: AudioProcessing where
  "initialAudioProcessing =
     \<lparr>minOutputBufferedAudio = MIN_OUTPUT_BUFFERED_AUDIO, mp3HandleOpen = True,
      mp3FileSamples = 16000, mp3SamplesPerFrame = 576, pcmAudio = []\<rparr>"

section \<open>Segmenter: the ID3 tag of a segment file\<close>

text \<open>
  The bytes of the string \<open>id3Prefix\<close>: \<open>ID3\<close>, version \<open>04 00\<close>, flags \<open>00\<close>, size
  \<open>00 00 00 3F\<close>; \<open>PRIV\<close>, frame size \<open>00 00 00 35\<close>, frame flags \<open>00 00\<close>; the owner
  \<open>com.apple.streaming.transportStreamTimestamp\<close> and a NUL byte.
\<close>

definition id3Prefix :: "byte list" where
  "id3Prefix =
     [0x49, 0x44, 0x33, 0x04, 0x00, 0x00, 0x00, 0x00, 0x00, 0x3F,
      0x50, 0x52, 0x49, 0x56, 0x00, 0x00, 0x00, 0x35, 0x00, 0x00,
      0x63, 0x6F, 0x6D, 0x2E, 0x61, 0x70, 0x70, 0x6C, 0x65, 0x2E, 0x73,
      0x74, 0x72, 0x65, 0x61, 0x6D, 0x69, 0x6E, 0x67, 0x2E, 0x74, 0x72,
      0x61, 0x6E, 0x73, 0x70, 0x6F, 0x72, 0x74, 0x53, 0x74, 0x72, 0x65,
      0x61, 0x6D, 0x54, 0x69, 0x6D, 0x65, 0x73, 0x74, 0x61, 0x6D, 0x70,
      0x00]"

text \<open>\<open>binary.Write\<close> of a \<open>uint64\<close> with \<open>binary.BigEndian\<close>.\<close>

definition bigEndianUint64 :: "uint64 \<Rightarrow> byte list" where
  "bigEndianUint64 w =
     [ucast (drop_bit 56 w), ucast (drop_bit 48 w), ucast (drop_bit 40 w), ucast (drop_bit 32 w),
      ucast (drop_bit 24 w), ucast (drop_bit 16 w), ucast (drop_bit 8 w), ucast w]"

text \<open>
  The timestamp is computed in \<open>float32\<close>. A finite \<open>float32\<close> value is a rational
  number, and every conversion, multiplication and division of the expression yields the
  exact result rounded to the nearest value with a 24-bit significand, ties to the even
  significand. \<open>float32Exponent x\<close> is the \<open>e\<close> with \<open>2 ^ e \<le> x < 2 ^ (e + 1)\<close>. The
  exponent range of \<open>float32\<close> is not modelled: for an offset between 1 ns and the
  largest \<open>int64\<close> every intermediate value lies between \<open>9 / 100000\<close> and \<open>10 ^ 21\<close>,
  far inside the range of normal numbers.
\<close>

definition roundHalfEven :: "rat \<Rightarrow> int" where
  "roundHalfEven q =
     (let f = \<lfloor>q\<rfloor>; r = q - of_int f
      in if r < 1 / 2 then f else if 1 / 2 < r then f + 1 else if even f then f else f + 1)"

definition float32Exponent :: "rat \<Rightarrow> int" where
  "float32Exponent x = (if 1 \<le> x then bitlen \<lfloor>x\<rfloor> - 1 else - bitlen (\<lceil>1 / x\<rceil> - 1))"

definition pow2 :: "int \<Rightarrow> rat" where
  "pow2 e = (if 0 \<le> e then 2 ^ nat e else 1 / 2 ^ nat (- e))"

definition float32 :: "rat \<Rightarrow> rat" where
  "float32 x =
     (if x = 0 then 0
      else (let ulp = pow2 (float32Exponent \<bar>x\<bar> - 23)
            in sgn x * of_int (roundHalfEven (\<bar>x\<bar> / ulp)) * ulp))"

text \<open>
  The expression of \<open>writeTag\<close>,
  \<open>uint64(float32(offset) / float32(time.Microsecond) * float32(90000) / float32(1000000))\<close>.
  \<open>offset\<close> is a \<open>time.Duration\<close> in nanoseconds; the caller passes \<open>mp3Offset\<close>, which
  starts at 0 and only has segment durations added, so it is a \<open>nat\<close>.
  \<open>time.Microsecond\<close> is 1000. The conversion to \<open>uint64\<close> drops the fraction.
\<close>

definition id3Timestamp :: "nat \<Rightarrow> uint64" where
  "id3Timestamp offset =
     word_of_int \<lfloor>float32 (float32 (float32 (float32 (of_nat offset) / float32 1000)
                                  * float32 90000) / float32 1000000)\<rfloor>"

text \<open>What \<open>writeTag\<close> writes to the file when both writes succeed.\<close>

definition writeTag :: "nat \<Rightarrow> byte list" where
  "writeTag offset = id3Prefix @ bigEndianUint64 (id3Timestamp offset)"

section \<open>Publisher: segment ageing and the media sequence number\<close>

definition Second :: int where
  "Second = 1000 * Millisecond"

definition MP3_TITLE :: string where
  "MP3_TITLE = ''Internet of Chuffs''"

text \<open>
  \<open>Mp3AudioFile\<close>; \<open>timestamp\<close> is a \<open>time.Time\<close>, here nanoseconds on the clock
  that \<open>time.Now()\<close> reads.
\<close>

record Mp3AudioFile =
  fileName :: string
  title :: string
  timestamp :: int
  duration :: int
  usable :: bool
  removable :: bool

text \<open>
  What one iteration of the ticker loop observes from outside: the two readings of
  \<open>time.Now()\<close> in its two tests, and whether \<open>os.Remove\<close> returns \<open>nil\<close> if it is
  called.
\<close>

record TickObservation =
  nowUsable :: int
  nowRemovable :: int
  removeSucceeds :: bool

text \<open>
  The state that the two goroutines of \<open>operateAudioOut\<close> share: the list of MP3 files
  and \<open>mediaSequenceNumber\<close>, a Go \<open>int\<close> that starts at 0 and is only incremented or
  set to 0. \<open>tickerNext\<close> is the place of the ticker goroutine: \<open>None\<close> between two
  passes over the list, when it does not hold \<open>mp3FileListLocker\<close>; \<open>Some n\<close> inside a
  pass, when it holds the lock and the element at index \<open>n\<close> is the next it visits. The
  playlist bytes are rebuilt from this state and are not modelled.
\<close>

record AudioOut =
  mp3FileList :: "Mp3AudioFile list"
  mediaSequenceNumber :: nat
  tickerNext :: "nat option"

definition initialAudioOut :: AudioOut where
  "initialAudioOut = \<lparr>mp3FileList = [], mediaSequenceNumber = 0, tickerNext = None\<rparr>"

definition mp3UsableAge :: "nat \<Rightarrow> int" where
  "mp3UsableAge playlistLengthSeconds = Second * int playlistLengthSeconds"

definition mp3RemovableAge :: "nat \<Rightarrow> int" where
  "mp3RemovableAge playlistLengthSeconds = mp3UsableAge playlistLengthSeconds * 2"

text \<open>
  The body of the ticker loop for one element: the three \<open>if\<close> statements in order.
  The result is the element after the iteration, the sequence number after the
  iteration and whether the element is taken out of the list.
\<close>

definition tickElement ::
  "nat \<Rightarrow> TickObservation \<Rightarrow> Mp3AudioFile \<Rightarrow> nat \<Rightarrow> Mp3AudioFile \<times> nat \<times> bool" where
  "tickElement playlistLengthSeconds ob f msn =
     (case (if usable f \<and> nowUsable ob - timestamp f > mp3UsableAge playlistLengthSeconds
            then (f\<lparr>usable := False\<rparr>, msn + 1)
            else (f, msn)) of
        (f1, msn1) \<Rightarrow>
          (let f2 = (if \<not> usable f1 \<and>
                        nowRemovable ob - timestamp f1 > mp3RemovableAge playlistLengthSeconds
                     then f1\<lparr>removable := True\<rparr>
                     else f1)
           in (f2, msn1, removable f2 \<and> removeSucceeds ob)))"

text \<open>
  One iteration of the ticker loop. Outside a pass it takes the lock and starts at the
  front of the list; an empty list ends the pass at once. The iteration reads the
  successor of its element, so the pass ends after the element that is last in the list
  at that moment, and an element pushed later waits for the next pass.
\<close>

definition tickIteration :: "nat \<Rightarrow> TickObservation \<Rightarrow> AudioOut \<Rightarrow> AudioOut" where
  "tickIteration playlistLengthSeconds ob s =
     (let i = (case tickerNext s of None \<Rightarrow> 0 | Some n \<Rightarrow> n)
      in if i < length (mp3FileList s)
         then (case tickElement playlistLengthSeconds ob (mp3FileList s ! i)
                      (mediaSequenceNumber s) of
                 (f2, msn1, removed) \<Rightarrow>
                   (let files = (if removed
                                 then take i (mp3FileList s) @ drop (Suc i) (mp3FileList s)
                                 else (mp3FileList s)[i := f2]);
                        n = (if removed then i else Suc i)
                    in \<lparr>mp3FileList = files, mediaSequenceNumber = msn1,
                        tickerNext = (if n < length files then Some n else None)\<rparr>))
         else s\<lparr>tickerNext := None\<rparr>)"

text \<open>
  The loop of the \<open>Reset\<close> case: an element leaves the list when its file could be
  removed.
\<close>

primrec resetLoop :: "(nat \<Rightarrow> bool) \<Rightarrow> nat \<Rightarrow> Mp3AudioFile list \<Rightarrow> Mp3AudioFile list" where
  "resetLoop removeOk i [] = []"
| "resetLoop removeOk i (f # fs) =
     (if removeOk i then resetLoop removeOk (Suc i) fs else f # resetLoop removeOk (Suc i) fs)"

text \<open>
  The steps of the two goroutines, which interleave freely where the source takes no
  lock.
  \<^item> \<open>TickIteration\<close>: one iteration of the ticker loop; the flag change and the
    increment of one element are one step.
  \<^item> \<open>NewSegment\<close>: the case \<open>*Mp3AudioFile\<close> of the control loop, \<open>PushBack\<close> without
    the lock, so it can fall between two iterations of a pass. The message is the one
    \<open>operateAudioProcessing\<close> builds: file name, creation time and duration are free,
    \<open>usable\<close> is true and \<open>removable\<close> is false.
  \<^item> \<open>ResetRemoveFiles\<close>: the loop of the case \<open>*Reset\<close>, which runs under the lock;
    while the ticker is inside a pass the control goroutine waits, and the step leaves
    the state as it is.
  \<^item> \<open>ResetSequenceNumber\<close>: the assignment \<open>mediaSequenceNumber = 0\<close> of the case
    \<open>*Reset\<close>, made after the lock is released, so it can fall between two iterations
    of a pass. A Reset is processed when this assignment is done.
\<close>

datatype AudioOutEvent =
    TickIteration TickObservation
  | NewSegment string int int
  | ResetRemoveFiles "nat \<Rightarrow> bool"
  | ResetSequenceNumber

fun step :: "nat \<Rightarrow> AudioOut \<Rightarrow> AudioOutEvent \<Rightarrow> AudioOut" where
  "step playlistLengthSeconds s (TickIteration ob) = tickIteration playlistLengthSeconds ob s"
| "step playlistLengthSeconds s (NewSegment name created lasting) =
     s\<lparr>mp3FileList := mp3FileList s @
          [\<lparr>fileName = name, title = MP3_TITLE, timestamp = created, duration = lasting,
            usable = True, removable = False\<rparr>]\<rparr>"
| "step playlistLengthSeconds s (ResetRemoveFiles removeOk) =
     (case tickerNext s of
        None \<Rightarrow> s\<lparr>mp3FileList := resetLoop removeOk 0 (mp3FileList s)\<rparr>
      | Some n \<Rightarrow> s)"
| "step playlistLengthSeconds s ResetSequenceNumber = s\<lparr>mediaSequenceNumber := 0\<rparr>"

definition run :: "nat \<Rightarrow> AudioOut \<Rightarrow> AudioOutEvent list \<Rightarrow> AudioOut" where
  "run playlistLengthSeconds s evs = foldl (step playlistLengthSeconds) s evs"

text \<open>
  The segments that aged out in one step, read off the states before and after it. A
  segment stops being usable by ageing out or by being deleted in the file removal of a
  Reset. So outside that removal the number aged out is the drop in the number of usable
  segments in the list; in the removal, where files only disappear, it is the number of
  unusable segments the list gained.
\<close>

definition usableCount :: "AudioOut \<Rightarrow> nat" where
  "usableCount s = length (filter usable (mp3FileList s))"

definition unusableCount :: "AudioOut \<Rightarrow> nat" where
  "unusableCount s = length (filter (\<lambda>f. \<not> usable f) (mp3FileList s))"

fun isResetRemoveFiles :: "AudioOutEvent \<Rightarrow> bool" where
  "isResetRemoveFiles (ResetRemoveFiles removeOk) = True"
| "isResetRemoveFiles e = False"

fun isResetSequenceNumber :: "AudioOutEvent \<Rightarrow> bool" where
  "isResetSequenceNumber ResetSequenceNumber = True"
| "isResetSequenceNumber e = False"

definition agedOutBy :: "AudioOutEvent \<Rightarrow> AudioOut \<Rightarrow> AudioOut \<Rightarrow> nat" where
  "agedOutBy e before after =
     (if isResetRemoveFiles e then unusableCount after - unusableCount before
      else usableCount before - usableCount after)"

text \<open>
  The number of segments that aged out since the last processed Reset, along a sequence
  of steps; \<open>count\<close> is the number before the first step.
\<close>

fun agedOutSinceReset :: "nat \<Rightarrow> AudioOut \<Rightarrow> nat \<Rightarrow> AudioOutEvent list \<Rightarrow> nat" where
  "agedOutSinceReset playlistLengthSeconds s count [] = count"
| "agedOutSinceReset playlistLengthSeconds s count (e # es) =
     agedOutSinceReset playlistLengthSeconds (step playlistLengthSeconds s e)
       (if isResetSequenceNumber e then 0
        else count + agedOutBy e s (step playlistLengthSeconds s e)) es"


text \<open>
  A tick eight seconds after two segments were created, and two sequences of steps with
  it: a pass over both segments, and the same pass with the assignment of a Reset
  between its two iterations.
\<close>

definition agedObservation :: TickObservation where
  "agedObservation = \<lparr>nowUsable = 8 * Second, nowRemovable = 8 * Second, removeSucceeds = True\<rparr>"


definition resetInsideTick :: "AudioOutEvent list" where
  "resetInsideTick =
     [NewSegment ''a.mp3'' 0 (972 * Millisecond), NewSegment ''b.mp3'' 0 (972 * Millisecond),
      TickIteration agedObservation, ResetSequenceNumber, TickIteration agedObservation]"

section \<open>Properties of the PCM decoder\<close>

lemma sampleBytesBigEndian_join:
  "sampleBytesBigEndian (push_bit 8 (ucast (hi :: byte)) + ucast (lo :: byte)) = [hi, lo]"
proof -
  have disj: "(push_bit 8 (ucast hi) :: int16) + ucast lo = push_bit 8 (ucast hi) OR ucast lo"
    by (rule disjunctive_add) (auto simp: bit_simps dest: bit_imp_le_length)
  have hi_eq: "(ucast (drop_bit 8 (push_bit 8 (ucast hi) OR (ucast lo :: int16))) :: byte) = hi"
    by (rule bit_word_eqI) (auto simp: bit_simps dest: bit_imp_le_length)
  have lo_eq: "(ucast (push_bit 8 (ucast hi) OR (ucast lo :: int16)) :: byte) = lo"
    by (rule bit_word_eqI) (auto simp: bit_simps)
  show ?thesis
    unfolding sampleBytesBigEndian_def disj hi_eq lo_eq by (rule refl)
qed

lemma decodePcm_loop_roundtrip:
  "x + 2 * n \<le> length bs \<Longrightarrow>
   \<exists>audio. decodePcm_loop bs x n = Inr audio \<and> length audio = n \<and>
           encodePcmBigEndian audio = take (2 * n) (drop x bs)"
proof (induction n arbitrary: x)
  case 0
  show ?case by (simp add: encodePcmBigEndian_def)
next
  case (Suc n)
  from Suc.prems have bound: "x + 2 + 2 * n \<le> length bs" by simp
  from Suc.IH [OF bound] obtain rest where
    rest: "decodePcm_loop bs (x + 2) n = Inr rest" "length rest = n"
          "encodePcmBigEndian rest = take (2 * n) (drop (x + 2) bs)"
    by blast
  from Suc.prems have ix: "x < length bs" "x + 1 < length bs" by simp_all
  have split: "take (2 * Suc n) (drop x bs) = bs ! x # bs ! (x + 1) # take (2 * n) (drop (x + 2) bs)"
  proof -
    have "drop x bs = bs ! x # drop (Suc x) bs"
      using ix(1) by (simp add: Cons_nth_drop_Suc)
    moreover have "drop (Suc x) bs = bs ! (Suc x) # drop (Suc (Suc x)) bs"
      using ix(2) by (simp add: Cons_nth_drop_Suc)
    ultimately show ?thesis by simp
  qed
  show ?case
    using rest ix split
    by (simp add: index_def encodePcmBigEndian_def sampleBytesBigEndian_join)
qed

text \<open>
  C6. A PCM_S16 payload of \<open>N\<close> big-endian samples (\<open>2 * N\<close> bytes) decodes without a
  panic to exactly \<open>N\<close> samples, and writing the decoded samples back as big-endian
  bytes gives the payload again.
\<close>

theorem decodePcm_roundtrip:
  "length payload = 2 * N \<Longrightarrow>
   \<exists>audio. decodePcm payload = Inr audio \<and> length audio = N \<and>
           encodePcmBigEndian audio = payload"
  using decodePcm_loop_roundtrip [of 0 N payload]
  by (simp add: decodePcm_def URTP_SAMPLE_SIZE_def)

theorem decodePcm_roundtrip_witness:
  "length [0x12, 0x34, 0xFF, 0x80 :: byte] = 2 * 2 \<and>
   (\<exists>audio. decodePcm [0x12, 0x34, 0xFF, 0x80] = Inr audio \<and> length audio = 2 \<and>
            encodePcmBigEndian audio = [0x12, 0x34, 0xFF, 0x80])"
  using decodePcm_roundtrip [of "[0x12, 0x34, 0xFF, 0x80]" 2]
  by simp

section \<open>Properties of the UNICAM decoder\<close>

lemma countUnicamBlocks_eq:
  "countUnicamBlocks len 8 x = (len * 8 + 131 - x) div 132"
proof (induction len "8::nat" x rule: countUnicamBlocks.induct)
  case (1 len x)
  show ?case
  proof (cases "x < len * 8")
    case True
    have "countUnicamBlocks len 8 x = Suc (countUnicamBlocks len 8 (x + 132))"
      using True
      by (subst countUnicamBlocks.simps)
         (simp add: SAMPLES_PER_UNICAM_BLOCK_def UNICAM_CODED_SHIFT_SIZE_BITS_def SAMPLING_FREQUENCY_def)
    also have "countUnicamBlocks len 8 (x + 132) = (len * 8 + 131 - (x + 132)) div 132"
      using 1 True
      by (simp add: SAMPLES_PER_UNICAM_BLOCK_def UNICAM_CODED_SHIFT_SIZE_BITS_def SAMPLING_FREQUENCY_def)
    also have "Suc ((len * 8 + 131 - (x + 132)) div 132) = (len * 8 + 131 - x) div 132"
    proof -
      have "len * 8 + 131 - x = (len * 8 + 131 - (x + 132)) + 132"
        using True by simp
      then show ?thesis by simp
    qed
    finally show ?thesis .
  next
    case False
    then have "countUnicamBlocks len 8 x = 0"
      by (subst countUnicamBlocks.simps) simp
    moreover have "(len * 8 + 131 - x) div 132 = 0"
      using False by simp
    ultimately show ?thesis by simp
  qed
qed

lemma readUnicamSamples_eq:
  "readUnicamSamples bs src n =
     (if n = 0 \<or> src + n \<le> length bs
      then Inr (map ucast (take n (drop src bs))) else Inl IndexOutOfRange)"
proof (induction n arbitrary: src)
  case 0
  show ?case by simp
next
  case (Suc n)
  show ?case
  proof (cases "src < length bs")
    case True
    then have d: "drop src bs = bs ! src # drop (Suc src) bs"
      by (simp add: Cons_nth_drop_Suc)
    show ?thesis
      using True by (simp add: index_def Suc.IH d)
  next
    case False
    then show ?thesis by (simp add: index_def)
  qed
qed

lemma filterUnicamSamples_length:
  "length (snd (filterUnicamSamples flt ssb shift st xs)) = length xs"
proof (induction xs arbitrary: st)
  case Nil
  show ?case by simp
next
  case (Cons x xs)
  obtain st1 y where step: "flt st (push_bit (unat shift) (signExtend ssb x)) = (st1, y)"
    by (cases "flt st (push_bit (unat shift) (signExtend ssb x))")
  obtain st2 ys where rest: "filterUnicamSamples flt ssb shift st1 xs = (st2, ys)"
    by (cases "filterUnicamSamples flt ssb shift st1 xs")
  from Cons.IH [of st1] rest have "length ys = length xs" by simp
  then show ?case by (simp add: step rest)
qed

lemma unicamBytesNeeded_Suc:
  "unicamBytesNeeded bc (Suc n) = 16 + (if even bc then 1 else 0) + unicamBytesNeeded (Suc bc) n"
  by (simp add: unicamBytesNeeded_def)

lemma decodeUnicamBlocks_fail:
  "length bs < src + unicamBytesNeeded bc n \<Longrightarrow> src \<le> length bs \<Longrightarrow>
   decodeUnicamBlocks flt ssb bs n bc src sv st = Inl IndexOutOfRange"
proof (induction n arbitrary: bc src sv st)
  case 0
  then show ?case by (simp add: unicamBytesNeeded_def split: if_splits)
next
  case (Suc n)
  show ?case
  proof (cases "src + 16 \<le> length bs")
    case False
    then show ?thesis
      by (simp add: readUnicamSamples_eq SAMPLES_PER_UNICAM_BLOCK_def SAMPLING_FREQUENCY_def)
  next
    case True
    show ?thesis
    proof (cases "even bc")
      case even: True
      show ?thesis
      proof (cases "src + 16 < length bs")
        case False
        then show ?thesis
          using True even
          by (simp add: readUnicamSamples_eq SAMPLES_PER_UNICAM_BLOCK_def SAMPLING_FREQUENCY_def
                unicamShift_def index_def)
      next
        case lt: True
        have "length bs < Suc (src + 16) + unicamBytesNeeded (Suc bc) n"
          using Suc.prems even by (simp add: unicamBytesNeeded_Suc)
        from Suc.IH [OF this] lt show ?thesis
          using True even
          by (simp add: readUnicamSamples_eq SAMPLES_PER_UNICAM_BLOCK_def SAMPLING_FREQUENCY_def
                unicamShift_def index_def split: prod.splits)
      qed
    next
      case odd: False
      have "length bs < (src + 16) + unicamBytesNeeded (Suc bc) n"
        using Suc.prems odd by (simp add: unicamBytesNeeded_Suc)
      from Suc.IH [OF this] True show ?thesis
        using odd
        by (simp add: readUnicamSamples_eq SAMPLES_PER_UNICAM_BLOCK_def SAMPLING_FREQUENCY_def
              unicamShift_def split: prod.splits)
    qed
  qed
qed

lemma decodeUnicamBlocks_ok:
  "src + unicamBytesNeeded bc n \<le> length bs \<Longrightarrow>
   \<exists>st' audio. decodeUnicamBlocks flt ssb bs n bc src sv st = Inr (st', audio) \<and>
               length audio = 16 * n"
proof (induction n arbitrary: bc src sv st)
  case 0
  then show ?case by simp
next
  case (Suc n)
  from Suc.prems have rd: "src + 16 \<le> length bs"
    by (simp add: unicamBytesNeeded_Suc)
  obtain sv1 src1 shift where
    sh: "unicamShift bs bc (src + 16) sv = Inr (sv1, src1, shift)"
    and src1: "src1 = src + 16 + (if even bc then 1 else 0)"
    using Suc.prems
    by (cases "even bc") (simp_all add: unicamBytesNeeded_Suc unicamShift_def index_def)
  obtain st1 block where
    fl: "filterUnicamSamples flt ssb shift st (map ucast (take 16 (drop src bs))) = (st1, block)"
    by (cases "filterUnicamSamples flt ssb shift st (map ucast (take 16 (drop src bs)))")
  have bl: "length block = 16"
    using filterUnicamSamples_length [of flt ssb shift st "map ucast (take 16 (drop src bs))"] rd
    by (simp add: fl)
  have "src1 + unicamBytesNeeded (Suc bc) n \<le> length bs"
    using Suc.prems src1 by (simp add: unicamBytesNeeded_Suc)
  from Suc.IH [OF this, of sv1 st1] obtain st2 rest where
    rest: "decodeUnicamBlocks flt ssb bs n (Suc bc) src1 sv1 st1 = Inr (st2, rest)"
          "length rest = 16 * n"
    by blast
  show ?case
    using rd sh fl bl rest
    by (simp add: readUnicamSamples_eq SAMPLES_PER_UNICAM_BLOCK_def SAMPLING_FREQUENCY_def)
qed

lemma unicam_blocks_arith:
  fixes len :: nat
  shows "unicamBytesNeeded 0 ((len * 8 + 131) div 132) \<le> len \<longleftrightarrow> len mod 33 = 0"
proof -
  define n where "n = (len * 8 + 131) div 132"
  define h where "h = (n + 1) div 2"
  define k where "k = len div 33"
  define r where "r = len mod 33"
  have len: "len = 33 * k + r" and r: "r < 33"
    by (simp_all add: k_def r_def)
  have n1: "132 * n \<le> len * 8 + 131" and n2: "len * 8 + 131 < 132 * n + 132"
    unfolding n_def
    using times_div_less_eq_dividend [of 132 "len * 8 + 131"]
          dividend_less_times_div [of 132 "len * 8 + 131"]
    by simp_all
  have h1: "2 * h \<le> n + 1" and h2: "n + 1 < 2 * h + 2"
    unfolding h_def
    using times_div_less_eq_dividend [of 2 "n + 1"] dividend_less_times_div [of 2 "n + 1"]
    by simp_all
  consider "r = 0" | "1 \<le> r \<and> r \<le> 16" | "17 \<le> r"
    by linarith
  then have "16 * n + h \<le> len \<longleftrightarrow> r = 0"
  proof cases
    case 1
    have "n = 2 * k" using n1 n2 len 1 by linarith
    moreover from this have "h = k" using h1 h2 by linarith
    ultimately show ?thesis using len 1 by simp
  next
    case 2
    have "n = 2 * k + 1" using n1 n2 len 2 by linarith
    moreover from this have "h = k + 1" using h1 h2 by linarith
    ultimately show ?thesis using len 2 by simp
  next
    case 3
    have "n = 2 * k + 2" using n1 n2 len 3 r by linarith
    moreover from this have "h = k + 1" using h1 h2 by linarith
    ultimately show ?thesis using len 3 r by simp
  qed
  then show ?thesis
    by (simp add: unicamBytesNeeded_def n_def h_def r_def)
qed

lemma unicam_blocks_exact:
  fixes len :: nat
  assumes "len mod 33 = 0"
  shows "(len * 8 + 131) div 132 = len * 8 div 132"
proof -
  from assms obtain k where k: "len = 33 * k" by (auto simp: mod_eq_0_iff_dvd)
  have "(264 * k + 131) div 132 = 2 * k"
    using div_mult_self4 [of 132 "2 * k" 131] by simp
  then show ?thesis by (simp add: k)
qed

text \<open>
  What \<open>decodeUnicam\<close> does with 8-bit samples, for every payload and every filter: a
  payload made of whole pairs of blocks (33 bytes each) decodes to 16 samples per block;
  any other length makes the block loop read past the end of the payload.
\<close>

lemma decodeUnicam_whole_pairs:
  assumes "length bs mod 33 = 0"
  shows "\<exists>st' audio. decodeUnicam flt st bs 8 = Inr (st', audio) \<and>
                     length audio = length bs * 8 div 132 * 16"
proof -
  have "0 + unicamBytesNeeded 0 ((length bs * 8 + 131) div 132) \<le> length bs"
    using assms by (simp add: unicam_blocks_arith)
  from decodeUnicamBlocks_ok [OF this, of flt 8 0 st]
  obtain st' audio where
    "decodeUnicamBlocks flt 8 bs ((length bs * 8 + 131) div 132) 0 0 0 st = Inr (st', audio)"
    "length audio = 16 * ((length bs * 8 + 131) div 132)"
    by blast
  then show ?thesis
    using unicam_blocks_exact [OF assms]
    by (simp add: decodeUnicam_def countUnicamBlocks_eq mult.commute)
qed

lemma decodeUnicam_partial_block:
  assumes "length bs mod 33 \<noteq> 0"
  shows "decodeUnicam flt st bs 8 = Inl IndexOutOfRange"
proof -
  have "length bs < 0 + unicamBytesNeeded 0 ((length bs * 8 + 131) div 132)"
    using assms unicam_blocks_arith [of "length bs"] by simp
  from decodeUnicamBlocks_fail [OF this, of flt 8 0 st]
  show ?thesis
    by (simp add: decodeUnicam_def countUnicamBlocks_eq)
qed

text \<open>
  C2. A UNICAM_8 datagram with a 17-byte payload passes header validation; by the
  bit-accounting it holds \<open>17 * 8 div 132 = 1\<close> block, 16 samples. The decoder counts
  two blocks and panics with an index out of range instead of producing 16 samples.
\<close>

theorem decodeUnicam_17_bytes_panics:
  "verifyUrtpHeader [0x5A, 1, 0, 0, 0, 0, 0, 0, 0, 0, 0, 0, 0, 17] \<and>
   17 * 8 div 132 * 16 = (16 :: nat) \<and>
   countUnicamBlocks 17 8 0 = 2 \<and>
   udpReceive flt st ([0x5A, 1, 0, 0, 0, 0, 0, 0, 0, 0, 0, 0, 0, 17] @ replicate 17 0)
     = Inl IndexOutOfRange"
proof -
  have hdr: "verifyUrtpHeader [0x5A, 1, 0, 0, 0, 0, 0, 0, 0, 0, 0, 0, 0, 17]"
    by (simp add: verifyUrtpHeader_def URTP_HEADER_SIZE_def SYNC_BYTE_def
          MAX_NUM_AUDIO_CODING_SCHEMES_def URTP_NUM_BYTES_AUDIO_OFFSET_def
          URTP_DATAGRAM_MAX_SIZE_def SAMPLES_PER_BLOCK_def SAMPLING_FREQUENCY_def
          BLOCK_DURATION_MS_def URTP_SAMPLE_SIZE_def)
  have dec: "decodeUnicam flt st (replicate 17 0) 8 = Inl IndexOutOfRange"
    by (rule decodeUnicam_partial_block) simp
  show ?thesis
    using hdr dec
    by (simp add: countUnicamBlocks_eq udpReceive_def handleUrtpDatagram_def
          urtpDecodeAudio_def URTP_HEADER_SIZE_def PCM_SIGNED_16_BIT_def
          UNICAM_COMPRESSED_8_BIT_def)
qed

text \<open>
  C10. For a UNICAM_8 payload of one byte the decoder reads index 1, which is not below
  the length 1: the out-of-range read is reached, whatever the byte and the filter are.
\<close>

theorem decodeUnicam_reads_out_of_range:
  "decodeUnicam flt st [b] 8 = Inl IndexOutOfRange"
  by (rule decodeUnicam_partial_block) simp

section \<open>Properties of the framer\<close>

lemmas urtp_consts =
  URTP_HEADER_SIZE_def SYNC_BYTE_def MAX_NUM_AUDIO_CODING_SCHEMES_def
  URTP_NUM_BYTES_AUDIO_OFFSET_def URTP_DATAGRAM_MAX_SIZE_def SAMPLES_PER_BLOCK_def
  SAMPLING_FREQUENCY_def BLOCK_DURATION_MS_def URTP_SAMPLE_SIZE_def
  URTP_SEQUENCE_NUMBER_SIZE_def URTP_TIMESTAMP_SIZE_def URTP_PAYLOAD_SIZE_SIZE_def
  PCM_SIGNED_16_BIT_def UNICAM_COMPRESSED_8_BIT_def

text \<open>
  The bound of the size check is \<open>URTP_DATAGRAM_MAX_SIZE\<close>, the size of a whole datagram
  with its header: 654, not the 640 bytes of the largest payload.
\<close>

lemma URTP_DATAGRAM_MAX_SIZE_value: "URTP_DATAGRAM_MAX_SIZE = 654"
  by (simp add: urtp_consts)

lemma verifyUrtpHeader_iff:
  "verifyUrtpHeader header \<longleftrightarrow>
     14 \<le> length header \<and> header ! 0 = 0x5A \<and> header ! 1 < 2 \<and>
     256 * unat (header ! 12) + unat (header ! 13) \<le> 654"
  by (auto simp add: verifyUrtpHeader_def urtp_consts push_bit_eq_mult mult.commute)

text \<open>
  The second payload-size byte in the stream reassembler: with \<open>p\<close> the size declared by
  the two bytes, the reassembler goes back to waiting for sync when \<open>p\<close> exceeds 654 or
  is 0, and waits for the payload otherwise.
\<close>

lemma urtpHeaderByte_second_size_byte:
  assumes "State rd = URTP_STATE_WAITING_PAYLOAD_SIZE" and "ByteCount rd = 1"
  shows "State (urtpHeaderByte rd item) =
           (if 654 < PayloadSize rd + unat item \<or> PayloadSize rd + unat item = 0
            then URTP_STATE_WAITING_SYNC else URTP_STATE_WAITING_PAYLOAD)"
  using assms by (simp add: urtpHeaderByte_def urtp_consts Let_def)

text \<open>
  C3. A header that declares a payload of 641 bytes passes \<open>verifyUrtpHeader\<close>; in
  datagram mode a packet with that header is delivered, and in stream mode the
  reassembler, on the second payload-size byte, goes on to wait for 641 payload bytes
  instead of returning to the sync state.
\<close>

theorem payload_size_641_accepted:
  "verifyUrtpHeader oversizeHeader \<and>
   256 * unat (oversizeHeader ! 12) + unat (oversizeHeader ! 13) = 641 \<and>
   udpReceive flt st (oversizeHeader @ [0, 1]) =
     Inr (st, [0x5A, 0, 7, 0, 0, 0, 0, 0, 0, 0, 0],
          Some \<lparr>SequenceNumber = 7, Timestamp = 0, Audio = Some [1]\<rparr>) \<and>
   urtpStreamLoop initialReassemblyData oversizeHeader =
     (\<lparr>State = URTP_STATE_WAITING_PAYLOAD, ByteCount = 0, PayloadSize = 641,
       Header = oversizeHeader, Datagram = oversizeHeader\<rparr>, [])"
proof -
  have valid: "verifyUrtpHeader oversizeHeader"
    by (simp add: verifyUrtpHeader_iff oversizeHeader_def)
  have declared: "256 * unat (oversizeHeader ! 12) + unat (oversizeHeader ! 13) = 641"
    by (simp add: oversizeHeader_def)
  have udp: "udpReceive flt st (oversizeHeader @ [0, 1]) =
     Inr (st, [0x5A, 0, 7, 0, 0, 0, 0, 0, 0, 0, 0],
          Some \<lparr>SequenceNumber = 7, Timestamp = 0, Audio = Some [1]\<rparr>)"
    by (simp add: udpReceive_def verifyUrtpHeader_iff oversizeHeader_def handleUrtpDatagram_def
          urtpDecodeAudio_def decodePcm_def index_def urtpSequenceNumber_def urtpTimestamp_def
          urtp_consts)
  have tcp: "urtpStreamLoop initialReassemblyData oversizeHeader =
     (\<lparr>State = URTP_STATE_WAITING_PAYLOAD, ByteCount = 0, PayloadSize = 641,
       Header = oversizeHeader, Datagram = oversizeHeader\<rparr>, [])"
    by (simp add: oversizeHeader_def initialReassemblyData_def urtpHeaderByte_def urtp_consts
          Let_def)
  from valid declared udp tcp show ?thesis by blast
qed

lemma zeroPayloadRecord_stream:
  "urtpStreamLoop initialReassemblyData zeroPayloadRecord =
     (initialReassemblyData\<lparr>Datagram := zeroPayloadRecord\<rparr>, [])"
  by (simp add: zeroPayloadRecord_def initialReassemblyData_def urtpHeaderByte_def urtp_consts
        Let_def)

text \<open>
  C4. In stream mode a complete record with \<open>payloadSize = 0\<close> is not passed to the
  datagram handler when its last header byte arrives: no packet is emitted, no datagram
  is sent on, and the 14 bytes stay in the datagram buffer. They come out only in front
  of the next record, as one packet of both records. In datagram mode the same 14 bytes
  are delivered at once, as a datagram without audio.
\<close>

theorem zero_payload_record_not_emitted:
  "urtpStreamLoop initialReassemblyData zeroPayloadRecord =
     (initialReassemblyData\<lparr>Datagram := zeroPayloadRecord\<rparr>, []) \<and>
   handleUrtpStream flt st initialReassemblyData zeroPayloadRecord =
     Inr (initialReassemblyData\<lparr>Datagram := zeroPayloadRecord\<rparr>, st, [], []) \<and>
   urtpStreamLoop initialReassemblyData (zeroPayloadRecord @ twoBytePayloadRecord) =
     (initialReassemblyData, [zeroPayloadRecord @ twoBytePayloadRecord]) \<and>
   udpReceive flt st zeroPayloadRecord =
     Inr (st, [0x5A, 0, 1, 0, 0, 0, 0, 0, 0, 0, 0],
          Some \<lparr>SequenceNumber = 1, Timestamp = 0, Audio = None\<rparr>)"
proof -
  have handled: "handleUrtpStream flt st initialReassemblyData zeroPayloadRecord =
     Inr (initialReassemblyData\<lparr>Datagram := zeroPayloadRecord\<rparr>, st, [], [])"
    by (simp add: handleUrtpStream_def zeroPayloadRecord_stream)
  have merged: "urtpStreamLoop initialReassemblyData (zeroPayloadRecord @ twoBytePayloadRecord) =
     (initialReassemblyData, [zeroPayloadRecord @ twoBytePayloadRecord])"
    by (simp add: zeroPayloadRecord_def twoBytePayloadRecord_def initialReassemblyData_def
          urtpHeaderByte_def urtpPayloadBytes_def urtpPayloadBytesToRead_def urtp_consts Let_def)
  have udp: "udpReceive flt st zeroPayloadRecord =
     Inr (st, [0x5A, 0, 1, 0, 0, 0, 0, 0, 0, 0, 0],
          Some \<lparr>SequenceNumber = 1, Timestamp = 0, Audio = None\<rparr>)"
    by (simp add: udpReceive_def verifyUrtpHeader_iff zeroPayloadRecord_def
          handleUrtpDatagram_def urtpDecodeAudio_def urtpSequenceNumber_def urtpTimestamp_def
          urtp_consts)
  from zeroPayloadRecord_stream handled merged udp show ?thesis by blast
qed

section \<open>Properties of the timeline assembler\<close>

lemma length_sampleBytes: "length (sampleBytes x) = 2"
  by (simp add: sampleBytes_def URTP_SAMPLE_SIZE_def)

lemma gapFillLoop_length:
  "y < length audio \<Longrightarrow>
   \<exists>fill. gapFillLoop audio y n = Inr fill \<and> length fill = 2 * n"
proof (induction n arbitrary: y)
  case 0
  show ?case by simp
next
  case (Suc n)
  have "(if Suc y \<ge> length audio then 0 else Suc y) < length audio"
    using Suc.prems by auto
  from Suc.IH [OF this] obtain rest where
    "gapFillLoop audio (if Suc y \<ge> length audio then 0 else Suc y) n = Inr rest"
    "length rest = 2 * n"
    by blast
  then show ?case
    using Suc.prems by (simp add: index_def length_sampleBytes)
qed

lemma gapFillLoop_replicate:
  "y < m \<Longrightarrow> gapFillLoop (replicate m x) y n = Inr (concat (replicate n (sampleBytes x)))"
  by (induction n arbitrary: y) (simp_all add: index_def)

lemma handleGap_no_previous:
  "0 \<le> gap \<Longrightarrow> gap < 8000 \<Longrightarrow>
   handleGap gap None pcm = Inr (pcm @ replicate (2 * nat gap) 0)"
  by (simp add: handleGap_def SAMPLING_FREQUENCY_def MAX_GAP_FILL_MILLISECONDS_def
        URTP_SAMPLE_SIZE_def mult.commute)

lemma handleGap_empty_previous:
  "0 \<le> gap \<Longrightarrow> gap < 8000 \<Longrightarrow> Audio p = Some [] \<Longrightarrow>
   handleGap gap (Some p) pcm = Inr (pcm @ replicate (2 * nat gap) 0)"
  by (simp add: handleGap_def SAMPLING_FREQUENCY_def MAX_GAP_FILL_MILLISECONDS_def
        URTP_SAMPLE_SIZE_def mult.commute)

lemma handleGap_previous_audio:
  assumes "0 \<le> gap" and "gap < 8000" and "Audio p = Some audio"
  shows "\<exists>fill. handleGap gap (Some p) pcm = Inr (pcm @ fill) \<and> length fill = 2 * nat gap"
proof (cases "audio = []")
  case True
  then show ?thesis
    using assms handleGap_empty_previous [of gap p pcm] by simp
next
  case False
  then have "0 < length audio" by simp
  from gapFillLoop_length [OF this, of "nat gap"] obtain fill where
    "gapFillLoop audio 0 (nat gap) = Inr fill" "length fill = 2 * nat gap"
    by blast
  then show ?thesis
    using assms False
    by (simp add: handleGap_def SAMPLING_FREQUENCY_def MAX_GAP_FILL_MILLISECONDS_def)
qed

lemma handleGap_nil_audio:
  "0 \<le> gap \<Longrightarrow> gap < 8000 \<Longrightarrow> Audio p = None \<Longrightarrow>
   handleGap gap (Some p) pcm = Inl NilDereference"
  by (simp add: handleGap_def SAMPLING_FREQUENCY_def MAX_GAP_FILL_MILLISECONDS_def)

lemma handleGap_silly:
  "8000 \<le> gap \<Longrightarrow> handleGap gap prev pcm = Inr pcm"
  by (simp add: handleGap_def SAMPLING_FREQUENCY_def MAX_GAP_FILL_MILLISECONDS_def)

text \<open>
  What \<open>processDatagram\<close> writes on a sequence-number jump of \<open>K\<close> blocks when both
  records carry audio: \<open>K * 320\<close> samples of fill, whatever the length of the new audio,
  then the new audio, then the fill for a short block.
\<close>

lemma processDatagram_sequence_jump:
  assumes prev: "Audio p = Some pa"
    and skip: "SequenceNumber d \<noteq> SequenceNumber p + 1"
    and small: "unat (SequenceNumber d - SequenceNumber p) * 320 < 8000"
    and audio: "Audio d = Some a"
  shows "\<exists>fill tail.
           processDatagram d (Some p) pcm = Inr (pcm @ fill @ concat (map sampleBytes a) @ tail) \<and>
           length fill = 2 * (unat (SequenceNumber d - SequenceNumber p) * 320) \<and>
           length tail = 2 * (320 - length a)"
proof -
  define K where "K = unat (SequenceNumber d - SequenceNumber p)"
  have small': "K * 320 < 8000"
    using small unfolding K_def .
  have gap: "0 \<le> int K * 320" "int K * 320 < 8000"
    using small' by simp_all
  from handleGap_previous_audio [OF gap prev, of pcm] obtain fill where
    fill: "handleGap (int K * 320) (Some p) pcm = Inr (pcm @ fill)"
          "length fill = 2 * nat (int K * 320)"
    by blast
  have fill_len: "length fill = 2 * (K * 320)"
    using fill(2) by (simp add: nat_mult_distrib)
  have skipped: "processSequenceSkip d (Some p) pcm = Inr (pcm @ fill)"
    using skip fill(1)
    by (simp add: processSequenceSkip_def K_def SAMPLES_PER_BLOCK_def SAMPLING_FREQUENCY_def
          BLOCK_DURATION_MS_def)
  show ?thesis
  proof (cases "length a < 320")
    case False
    then have "processDatagram d (Some p) pcm = Inr (pcm @ fill @ concat (map sampleBytes a) @ [])"
      using skipped audio
      by (simp add: processDatagram_def SAMPLES_PER_BLOCK_def SAMPLING_FREQUENCY_def
            BLOCK_DURATION_MS_def)
    then show ?thesis
      using fill_len False unfolding K_def by (intro exI [of _ fill] exI [of _ "[]"]) simp
  next
    case True
    then have short: "0 \<le> 320 - int (length a)" "320 - int (length a) < 8000"
      by simp_all
    from handleGap_previous_audio [OF short prev, of "pcm @ fill @ concat (map sampleBytes a)"]
    obtain tail where
      tail: "handleGap (320 - int (length a)) (Some p) (pcm @ fill @ concat (map sampleBytes a)) =
               Inr ((pcm @ fill @ concat (map sampleBytes a)) @ tail)"
            "length tail = 2 * nat (320 - int (length a))"
      by blast
    have "processDatagram d (Some p) pcm = Inr (pcm @ fill @ concat (map sampleBytes a) @ tail)"
      using skipped audio True tail(1)
      by (simp add: processDatagram_def SAMPLES_PER_BLOCK_def SAMPLING_FREQUENCY_def
            BLOCK_DURATION_MS_def)
    moreover have "length tail = 2 * (320 - length a)"
      using tail(2) True by (simp add: nat_diff_distrib')
    ultimately show ?thesis
      using fill_len unfolding K_def by blast
  qed
qed

text \<open>
  C1. The record with sequence number 9 is followed by the record with sequence number
  11, both with 320 samples: a jump of \<open>K = 2\<close>, one block missing. \<open>processDatagram\<close>
  inserts \<open>K * 320 = 640\<close> samples of fill (the previous block twice) before the new
  audio, not \<open>K * 320 - 320 = 320\<close>.
\<close>

theorem sequence_jump_fill_is_K_blocks:
  "processDatagram \<lparr>SequenceNumber = 11, Timestamp = 0, Audio = Some (replicate 320 2)\<rparr>
     (Some \<lparr>SequenceNumber = 9, Timestamp = 0, Audio = Some (replicate 320 1)\<rparr>) pcm =
     Inr (pcm @ concat (replicate 640 (sampleBytes 1)) @ concat (map sampleBytes (replicate 320 2))) \<and>
   length (concat (replicate 640 (sampleBytes 1))) = 640 * URTP_SAMPLE_SIZE \<and>
   unat (11 - 9 :: uint16) * SAMPLES_PER_BLOCK - length (replicate 320 (2 :: int16)) = 320"
proof -
  have run: "processDatagram \<lparr>SequenceNumber = 11, Timestamp = 0, Audio = Some (replicate 320 2)\<rparr>
     (Some \<lparr>SequenceNumber = 9, Timestamp = 0, Audio = Some (replicate 320 1)\<rparr>) pcm =
     Inr (pcm @ concat (replicate 640 (sampleBytes 1)) @ concat (map sampleBytes (replicate 320 2)))"
    by (simp add: processDatagram_def processSequenceSkip_def handleGap_def
          gapFillLoop_replicate SAMPLES_PER_BLOCK_def SAMPLING_FREQUENCY_def
          BLOCK_DURATION_MS_def MAX_GAP_FILL_MILLISECONDS_def)
  have len: "length (concat (replicate 640 (sampleBytes 1))) = 640 * URTP_SAMPLE_SIZE"
    by (simp add: length_concat length_sampleBytes URTP_SAMPLE_SIZE_def sum_list_replicate)
  have claimed: "unat (11 - 9 :: uint16) * SAMPLES_PER_BLOCK - length (replicate 320 (2 :: int16)) = 320"
    by (simp add: SAMPLES_PER_BLOCK_def SAMPLING_FREQUENCY_def BLOCK_DURATION_MS_def)
  from run len claimed show ?thesis by blast
qed

text \<open>
  C9. A datagram of 14 bytes is delivered with \<open>Audio = nil\<close>. When such a datagram is
  the previous one, \<open>handleGap\<close> dereferences the nil pointer in
  \<open>len(*previousDatagram.Audio)\<close>: a gap of 320 samples is not filled, the process
  panics. Two header-only datagrams in a row are enough.
\<close>

theorem handleGap_nil_audio_panics:
  "udpReceive flt st zeroPayloadRecord =
     Inr (st, [0x5A, 0, 1, 0, 0, 0, 0, 0, 0, 0, 0],
          Some \<lparr>SequenceNumber = 1, Timestamp = 0, Audio = None\<rparr>) \<and>
   handleGap 320 (Some \<lparr>SequenceNumber = 1, Timestamp = 0, Audio = None\<rparr>) pcm =
     Inl NilDereference \<and>
   processDatagrams [\<lparr>SequenceNumber = 1, Timestamp = 0, Audio = None\<rparr>,
                     \<lparr>SequenceNumber = 2, Timestamp = 0, Audio = None\<rparr>] None pcm =
     Inl NilDereference"
proof -
  have udp: "udpReceive flt st zeroPayloadRecord =
     Inr (st, [0x5A, 0, 1, 0, 0, 0, 0, 0, 0, 0, 0],
          Some \<lparr>SequenceNumber = 1, Timestamp = 0, Audio = None\<rparr>)"
    by (simp add: udpReceive_def verifyUrtpHeader_iff zeroPayloadRecord_def
          handleUrtpDatagram_def urtpDecodeAudio_def urtpSequenceNumber_def urtpTimestamp_def
          urtp_consts)
  have gap: "handleGap 320 (Some \<lparr>SequenceNumber = 1, Timestamp = 0, Audio = None\<rparr>) pcm =
     Inl NilDereference"
    by (simp add: handleGap_nil_audio)
  have two: "processDatagrams [\<lparr>SequenceNumber = 1, Timestamp = 0, Audio = None\<rparr>,
                     \<lparr>SequenceNumber = 2, Timestamp = 0, Audio = None\<rparr>] None pcm =
     Inl NilDereference"
    by (simp add: processDatagram_def processSequenceSkip_def handleGap_no_previous
          handleGap_nil_audio SAMPLES_PER_BLOCK_def SAMPLING_FREQUENCY_def BLOCK_DURATION_MS_def)
  from udp gap two show ?thesis by blast
qed

section \<open>Properties of the output buffer feedback\<close>

text \<open>
  When silence is injected, for every message and every state with a positive frame
  size: exactly when \<open>Buffered\<close> is below 1000 ms and a segment file is open. The lowered
  \<open>minOutputBufferedAudio\<close> plays no part.
\<close>

lemma onOutputBufferState_injects_iff:
  assumes "0 < mp3SamplesPerFrame s"
  shows "\<exists>s'. onOutputBufferState message s = Inr s' \<and>
     pcmAudio s' = pcmAudio s @
       (if Buffered message < 1000000000 \<and> mp3HandleOpen s
        then replicate (segmentSamples s * 2) 0 else [])"
  using assms
  by (auto simp add: onOutputBufferState_def Let_def MIN_OUTPUT_BUFFERED_AUDIO_def
        Millisecond_def segmentSamples_def URTP_SAMPLE_SIZE_def)

text \<open>
  C5. With a playlist window of 1 s the threshold of the claim is half of
  \<open>BufferSize\<close>, 500 ms, and the code lowers \<open>minOutputBufferedAudio\<close> to it. A message
  with 700 ms buffered is not below that threshold, yet one segment of silence (15552
  samples) is injected, because the test uses the constant 1000 ms.
\<close>

theorem silence_injected_above_lowered_threshold:
  "onOutputBufferState \<lparr>Buffered = 700 * Millisecond, BufferSize = 1000 * Millisecond\<rparr>
     initialAudioProcessing =
     Inr (initialAudioProcessing\<lparr>minOutputBufferedAudio := 500 * Millisecond,
                                  pcmAudio := replicate (15552 * URTP_SAMPLE_SIZE) 0\<rparr>) \<and>
   min MIN_OUTPUT_BUFFERED_AUDIO (goDiv (1000 * Millisecond) 2) = 500 * Millisecond \<and>
   500 * Millisecond \<le> 700 * Millisecond"
  by (simp add: onOutputBufferState_def Let_def MIN_OUTPUT_BUFFERED_AUDIO_def Millisecond_def
        segmentSamples_def URTP_SAMPLE_SIZE_def initialAudioProcessing_def goDiv_def)

section \<open>Properties of the publisher\<close>












lemmas publisher_eval =
  run_def initialAudioOut_def agedObservation_def tickIteration_def tickElement_def
  mp3UsableAge_def mp3RemovableAge_def Second_def Millisecond_def Let_def agedOutBy_def
  usableCount_def unusableCount_def


text \<open>
  The assignment of a Reset between the two iterations of a pass: the first segment aged
  out before it, the second after it, and the sequence number ends at 1.
\<close>

lemma reset_inside_tick:
  "mediaSequenceNumber (run 7 initialAudioOut resetInsideTick) = 1 \<and>
   agedOutSinceReset 7 initialAudioOut 0 resetInsideTick = 1 \<and>
   tickerNext (run 7 initialAudioOut (take 3 resetInsideTick)) = Some 1"
  by (simp add: resetInsideTick_def publisher_eval)

section \<open>Properties of the ID3 tag\<close>

text \<open>
  The tag is the 65 fixed bytes followed by the 8 bytes of the timestamp, 73 bytes in
  all: the 10-byte ID3 header and the 63 bytes its size field announces.
\<close>

lemma writeTag_layout:
  "length id3Prefix = 65 \<and> length (writeTag offset) = 73 \<and>
   take 65 (writeTag offset) = id3Prefix \<and>
   drop 65 (writeTag offset) = bigEndianUint64 (id3Timestamp offset)"
  by (simp add: writeTag_def id3Prefix_def bigEndianUint64_def)

lemma bitlen_eqI: "2 ^ n \<le> x \<Longrightarrow> x < 2 ^ Suc n \<Longrightarrow> bitlen x = int (Suc n)"
proof -
  assume lo: "2 ^ n \<le> x" and hi: "x < 2 ^ Suc n"
  have "(0::int) < 2 ^ n" by simp
  with lo have pos: "0 < x" by linarith
  have "int (2 ^ n) \<le> x" using lo by simp
  then have "2 ^ n \<le> nat x" using pos by linarith
  then have ge: "Suc n \<le> floorlog 2 (nat x)"
    by (intro floorlog_ge_SucI) simp_all
  have "x < int (2 ^ Suc n)" using hi by simp
  then have "nat x < 2 ^ Suc n" using pos by linarith
  then have le: "floorlog 2 (nat x) \<le> Suc n"
    by (intro floorlog_leI) simp_all
  from ge le show ?thesis by (simp add: bitlen_def)
qed

lemma floor_rat_numeral: "\<lfloor>numeral a / numeral b :: rat\<rfloor> = numeral a div numeral b"
  by (metis floor_divide_of_int_eq of_int_numeral)

lemma float32_1000: "float32 1000 = 1000"
proof -
  have b: "bitlen 1000 = 10"
    using bitlen_eqI [of 9 1000] by simp
  show ?thesis
    by (simp add: float32_def float32Exponent_def b pow2_def roundHalfEven_def Let_def
          floor_rat_numeral)
qed

lemma float32_90000: "float32 90000 = 90000"
proof -
  have b: "bitlen 90000 = 17"
    using bitlen_eqI [of 16 90000] by simp
  show ?thesis
    by (simp add: float32_def float32Exponent_def b pow2_def roundHalfEven_def Let_def
          floor_rat_numeral)
qed

lemma float32_1000000: "float32 1000000 = 1000000"
proof -
  have b: "bitlen 1000000 = 20"
    using bitlen_eqI [of 19 1000000] by simp
  show ?thesis
    by (simp add: float32_def float32Exponent_def b pow2_def roundHalfEven_def Let_def
          floor_rat_numeral)
qed

lemma eighth_segment_step1: "float32 6804000000 = 6803999744"
proof -
  have b: "bitlen 6804000000 = 33"
    using bitlen_eqI [of 32 6804000000] by simp
  show ?thesis
    by (simp add: float32_def float32Exponent_def b pow2_def roundHalfEven_def Let_def
          floor_rat_numeral)
qed

lemma eighth_segment_step2: "float32 (6803999744 / 1000) = 13607999 / 2"
proof -
  have b: "bitlen 6803999 = 23"
    using bitlen_eqI [of 22 6803999] by simp
  show ?thesis
    by (simp add: float32_def float32Exponent_def b pow2_def roundHalfEven_def Let_def
          floor_rat_numeral)
qed

lemma eighth_segment_step3: "float32 (13607999 / 2 * 90000) = 612359929856"
proof -
  have b: "bitlen 612359955000 = 40"
    using bitlen_eqI [of 39 612359955000] by simp
  show ?thesis
    by (simp add: float32_def float32Exponent_def b pow2_def roundHalfEven_def Let_def
          floor_rat_numeral)
qed

lemma eighth_segment_step4: "float32 (612359929856 / 1000000) = 9797759 / 16"
proof -
  have b: "bitlen 612359 = 20"
    using bitlen_eqI [of 19 612359] by simp
  show ?thesis
    by (simp add: float32_def float32Exponent_def b pow2_def roundHalfEven_def Let_def
          floor_rat_numeral)
qed

text \<open>
  The second segment of such a stream, at offset 972 ms: the product is rounded here
  too, but the quotient rounds back and the tag carries the 87480 ticks of the offset.
\<close>

lemma second_segment_step1: "float32 972000000 = 972000000"
proof -
  have b: "bitlen 972000000 = 30"
    using bitlen_eqI [of 29 972000000] by simp
  show ?thesis
    by (simp add: float32_def float32Exponent_def b pow2_def roundHalfEven_def Let_def
          floor_rat_numeral)
qed

lemma second_segment_step2: "float32 (972000000 / 1000) = 972000"
proof -
  have b: "bitlen 972000 = 20"
    using bitlen_eqI [of 19 972000] by simp
  show ?thesis
    by (simp add: float32_def float32Exponent_def b pow2_def roundHalfEven_def Let_def
          floor_rat_numeral)
qed

lemma second_segment_step3: "float32 (972000 * 90000) = 87480000512"
proof -
  have b: "bitlen 87480000000 = 37"
    using bitlen_eqI [of 36 87480000000] by simp
  show ?thesis
    by (simp add: float32_def float32Exponent_def b pow2_def roundHalfEven_def Let_def
          floor_rat_numeral)
qed

lemma second_segment_step4: "float32 (87480000512 / 1000000) = 87480"
proof -
  have b: "bitlen 87480 = 17"
    using bitlen_eqI [of 16 87480] by simp
  show ?thesis
    by (simp add: float32_def float32Exponent_def b pow2_def roundHalfEven_def Let_def
          floor_rat_numeral)
qed

lemma id3Timestamp_second_segment:
  "id3Timestamp 972000000 = 87480 \<and> 972000000 div 1000 * 90000 div 1000000 = (87480 :: nat)"
  unfolding id3Timestamp_def of_nat_numeral float32_1000 float32_90000 float32_1000000
    second_segment_step1 second_segment_step2 second_segment_step3 second_segment_step4
  by (simp add: floor_rat_numeral)

lemma id3Timestamp_eighth_segment: "id3Timestamp 6804000000 = 612359"
  unfolding id3Timestamp_def of_nat_numeral float32_1000 float32_90000 float32_1000000
    eighth_segment_step1 eighth_segment_step2 eighth_segment_step3 eighth_segment_step4
  by (simp add: floor_rat_numeral)

text \<open>
  C7. With the default segment length every segment holds 15552 samples, 972 ms, so the
  eighth segment of a stream is tagged with the offset 7 * 972 ms. On a 90 kHz clock
  that is 612360 ticks. \<open>writeTag\<close> writes 612359: \<open>float32(offset)\<close> is 6803999744,
  divided by 1000 it rounds to 6803999.5, times 90000 to 612359929856, and divided by
  1000000 to 612359.9375.
\<close>

theorem writeTag_eighth_segment:
  "7 * (15552 * 1000000 div SAMPLING_FREQUENCY * 1000) = 6804000000 \<and>
   id3Timestamp 6804000000 = 612359 \<and>
   writeTag 6804000000 = id3Prefix @ [0, 0, 0, 0, 0, 0x09, 0x58, 0x07] \<and>
   6804000000 div 1000 * 90000 div 1000000 = (612360 :: nat)"
  by (simp add: writeTag_def id3Timestamp_eighth_segment bigEndianUint64_def
        SAMPLING_FREQUENCY_def)

end
